theory Spec2Isabelle
  imports Main "HOL-Library.Sublist" "HOL-Library.AList"
begin

section \<open>Python strings\<close>

text \<open>
  A Python \<^verbatim>\<open>str\<close> is a sequence of Unicode code points, and \<^verbatim>\<open>len\<close> and slicing count
  code points.  The gateway's literals contain characters outside ASCII, so a string is
  modelled as the list of its code points.  ASCII pieces of a literal are written through
  \<open>asc\<close>; every other character is given by its code point in hexadecimal.
\<close>

type_synonym pystr = "nat list"

definition asc :: "string \<Rightarrow> pystr" where
  "asc s = map (of_char :: char \<Rightarrow> nat) s"

text \<open>\<^verbatim>\<open>str.isspace\<close> on one character: the code points Python treats as whitespace.\<close>

definition py_isspace :: "nat \<Rightarrow> bool" where
  "py_isspace c \<longleftrightarrow>
     (0x09 \<le> c \<and> c \<le> 0x0D) \<or> (0x1C \<le> c \<and> c \<le> 0x20) \<or> c = 0x85 \<or> c = 0xA0 \<or>
     c = 0x1680 \<or> (0x2000 \<le> c \<and> c \<le> 0x200A) \<or> c = 0x2028 \<or> c = 0x2029 \<or>
     c = 0x202F \<or> c = 0x205F \<or> c = 0x3000"

text \<open>\<^verbatim>\<open>s.strip()\<close>: whitespace removed at both ends.\<close>

definition py_strip :: "pystr \<Rightarrow> pystr" where
  "py_strip s = rev (dropWhile py_isspace (rev (dropWhile py_isspace s)))"

text \<open>\<^verbatim>\<open>s.split(sep)\<close> for a separator of one character: never an empty list.\<close>

fun py_split :: "nat \<Rightarrow> pystr \<Rightarrow> pystr list" where
  "py_split sep [] = [[]]"
| "py_split sep (c # cs) =
     (if c = sep then [] # py_split sep cs
      else (case py_split sep cs of
              [] \<Rightarrow> [[c]]
            | l # ls \<Rightarrow> (c # l) # ls))"

text \<open>\<^verbatim>\<open>sep.join(parts)\<close> on a list of strings.\<close>

fun py_join :: "pystr \<Rightarrow> pystr list \<Rightarrow> pystr" where
  "py_join sep [] = []"
| "py_join sep [x] = x"
| "py_join sep (x # y # ys) = x @ sep @ py_join sep (y # ys)"

text \<open>\<^verbatim>\<open>str(n)\<close> for a natural number (a \<^verbatim>\<open>len\<close>, or a difference the code guards).\<close>

fun py_str_nat :: "nat \<Rightarrow> pystr" where
  "py_str_nat n =
     (if n < 10 then [0x30 + n] else py_str_nat (n div 10) @ [0x30 + n mod 10])"

declare py_str_nat.simps [simp del]

definition newline :: nat where
  "newline = 0x0A"


section \<open>Python values, as far as the gateway observes them\<close>

text \<open>
  An exception of class \<^verbatim>\<open>Exception\<close> (what \<^verbatim>\<open>except Exception\<close> catches), with the text
  that \<^verbatim>\<open>str(e)\<close> gives.
\<close>

datatype exn = Exn pystr

fun exn_str :: "exn \<Rightarrow> pystr" where
  "exn_str (Exn msg) = msg"

text \<open>
  \<^verbatim>\<open>_extract_content\<close> takes \<^verbatim>\<open>result: Any\<close>.  A value is either a \<^verbatim>\<open>str\<close>, or any other
  object, described by what the function can observe of it: the name of its type, its
  \<^verbatim>\<open>str()\<close> form, its truth value, the items iterating over it yields (\<open>None\<close> when it is not
  iterable) and its attributes.  A \<^verbatim>\<open>str\<close> has none of the attributes \<^verbatim>\<open>content\<close>, \<^verbatim>\<open>text\<close>,
  \<^verbatim>\<open>data\<close> the function asks for.
\<close>

datatype pyval =
    PyStr pystr
  | PyObj pystr pystr bool "pyval list option" "(string \<times> pyval) list"

fun py_getattr :: "pyval \<Rightarrow> string \<Rightarrow> pyval option" where
  "py_getattr (PyStr s) a = None"
| "py_getattr (PyObj ty st tr it attrs) a = map_of attrs a"

fun py_str :: "pyval \<Rightarrow> pystr" where
  "py_str (PyStr s) = s"
| "py_str (PyObj ty st tr it attrs) = st"

fun py_truth :: "pyval \<Rightarrow> bool" where
  "py_truth (PyStr s) = (s \<noteq> [])"
| "py_truth (PyObj ty st tr it attrs) = tr"

fun py_type_name :: "pyval \<Rightarrow> pystr" where
  "py_type_name (PyStr s) = asc ''str''"
| "py_type_name (PyObj ty st tr it attrs) = ty"

text \<open>\<^verbatim>\<open>for item in v\<close>: a \<^verbatim>\<open>str\<close> yields its characters, a value that is not iterable raises
  \<^verbatim>\<open>TypeError\<close>.\<close>

fun py_iter :: "pyval \<Rightarrow> exn + pyval list" where
  "py_iter (PyStr s) = Inr (map (\<lambda>c. PyStr [c]) s)"
| "py_iter (PyObj ty st tr None attrs) =
     Inl (Exn ([0x27] @ ty @ [0x27] @ asc '' object is not iterable''))"
| "py_iter (PyObj ty st tr (Some items) attrs) = Inr items"

text \<open>\<^verbatim>\<open>sep.join(parts)\<close> on arbitrary values: the first part that is not a \<^verbatim>\<open>str\<close> raises
  \<^verbatim>\<open>TypeError\<close>.\<close>

fun first_non_str :: "nat \<Rightarrow> pyval list \<Rightarrow> (nat \<times> pyval) option" where
  "first_non_str i [] = None"
| "first_non_str i (PyStr s # vs) = first_non_str (Suc i) vs"
| "first_non_str i (PyObj ty st tr it attrs # vs) = Some (i, PyObj ty st tr it attrs)"

definition py_join_vals :: "pystr \<Rightarrow> pyval list \<Rightarrow> exn + pystr" where
  "py_join_vals sep parts =
     (case first_non_str 0 parts of
        Some (i, v) \<Rightarrow>
          Inl (Exn (asc ''sequence item '' @ py_str_nat i @
                    asc '': expected str instance, '' @ py_type_name v @ asc '' found''))
      | None \<Rightarrow> Inr (py_join sep (map py_str parts)))"


section \<open>Data model\<close>

text \<open>
  \<^verbatim>\<open>ServerConfig\<close> of \<^verbatim>\<open>gateway_mcp_server.py\<close>.  The class of \<^verbatim>\<open>gateway.py\<close> is the same
  without the field \<^verbatim>\<open>tools\<close>, which the functions of that file never read.
\<close>

record server_config =
  name :: pystr
  command :: pystr
  args :: "pystr list"
  env :: "(pystr \<times> pystr) list"
  tools :: "pystr list"

text \<open>The property \<^verbatim>\<open>client_config\<close>: what a \<^verbatim>\<open>Client\<close> is built from.\<close>

type_synonym client_cfg = "pystr \<times> pystr \<times> pystr list \<times> (pystr \<times> pystr) list"

definition client_config :: "server_config \<Rightarrow> client_cfg" where
  "client_config server = (name server, command server, args server, env server)"

text \<open>A tool as the upstream reports it: \<^verbatim>\<open>t.name\<close> and the optional \<^verbatim>\<open>t.description\<close>.\<close>

record tool =
  tool_name :: pystr
  tool_description :: "pystr option"

type_synonym params = "(pystr \<times> pyval) list"

text \<open>
  The \<^verbatim>\<open>fastmcp.Client\<close> is outside the repository.  Each \<^verbatim>\<open>async with Client(...)\<close> block is
  one session: it opens a connection and makes one request, and the block either raises
  (the connection or the request failed) or yields the reply.  What the upstream answers may
  depend on everything asked before, so the reply is a function of the sessions so far.
\<close>

datatype request = ListTools | CallTool pystr params

type_synonym session = "client_cfg \<times> request"

record upstream =
  enumerate_operations :: "session list \<Rightarrow> client_cfg \<Rightarrow> exn + tool list"
  invoke_operation :: "session list \<Rightarrow> client_cfg \<Rightarrow> pystr \<Rightarrow> params \<Rightarrow> exn + pyval"

text \<open>
  A callable registered with the \<^verbatim>\<open>FastMCP\<close> app: its description, and the config its
  \<^verbatim>\<open>dispatch\<close> closure captured.
\<close>

record entry_point =
  ep_description :: pystr
  ep_server :: server_config

text \<open>
  \<^verbatim>\<open>MCPGateway\<close>: the app's tool table, \<^verbatim>\<open>servers\<close> and \<^verbatim>\<open>_tools_cache\<close>.  The last field is
  not a field of the Python object: it logs the client sessions opened so far, oldest first,
  so that discovery calls can be counted.
\<close>

record gateway =
  app :: "(pystr \<times> entry_point) list"
  servers :: "pystr \<rightharpoonup> server_config"
  tools_cache :: "pystr \<rightharpoonup> pystr list"
  client_sessions :: "session list"

text \<open>\<^verbatim>\<open>MCPGateway()\<close>.\<close>

definition new_gateway :: gateway where
  "new_gateway = \<lparr>app = [], servers = Map.empty, tools_cache = Map.empty, client_sessions = []\<rparr>"


section \<open>Discovery: \<^verbatim>\<open>_fetch_tools_dynamic\<close>\<close>

text \<open>The default text of \<^verbatim>\<open>t.description or '...'\<close> (three CJK characters).\<close>

definition no_description :: pystr where
  "no_description = [0x65E0, 0x63CF, 0x8FF0]"

text \<open>\<^verbatim>\<open>t.description or default\<close>: \<^verbatim>\<open>None\<close> and the empty string are both falsy.\<close>

definition description_or_default :: "tool \<Rightarrow> pystr" where
  "description_or_default t =
     (case tool_description t of
        None \<Rightarrow> no_description
      | Some d \<Rightarrow> if d = [] then no_description else d)"

text \<open>The long form, \<^verbatim>\<open>f"{t.name}: {t.description or default}"\<close>.\<close>

definition long_form :: "tool \<Rightarrow> pystr" where
  "long_form t = tool_name t @ asc '': '' @ description_or_default t"

text \<open>
  The short form: the body of the loop over \<^verbatim>\<open>tools\<close>.  \<^verbatim>\<open>split\<close> never returns an empty
  list, so the subscript \<^verbatim>\<open>[0]\<close> cannot raise; \<^verbatim>\<open>desc[:77]\<close> is the first 77 characters.
\<close>

definition short_form :: "tool \<Rightarrow> pystr" where
  "short_form t =
     (let desc = hd (py_split newline (py_strip (description_or_default t)));
          desc = (if length desc > 80 then take 77 desc @ asc ''...'' else desc)
      in tool_name t @ asc '': '' @ desc)"

text \<open>One \<^verbatim>\<open>async with Client(server.client_config)\<close> block around \<^verbatim>\<open>client.list_tools()\<close>.\<close>

definition client_list_tools ::
  "upstream \<Rightarrow> server_config \<Rightarrow> gateway \<Rightarrow> (exn + tool list) \<times> gateway" where
  "client_list_tools up server g =
     (enumerate_operations up (client_sessions g) (client_config server),
      g\<lparr>client_sessions := client_sessions g @ [(client_config server, ListTools)]\<rparr>)"

text \<open>One \<^verbatim>\<open>async with\<close> block around \<^verbatim>\<open>client.call_tool(action, params)\<close>.\<close>

definition client_call_tool ::
  "upstream \<Rightarrow> server_config \<Rightarrow> pystr \<Rightarrow> params \<Rightarrow> gateway \<Rightarrow> (exn + pyval) \<times> gateway" where
  "client_call_tool up server action ps g =
     (invoke_operation up (client_sessions g) (client_config server) action ps,
      g\<lparr>client_sessions := client_sessions g @ [(client_config server, CallTool action ps)]\<rparr>)"

definition fetch_tools_dynamic ::
  "upstream \<Rightarrow> server_config \<Rightarrow> gateway \<Rightarrow> (exn + pystr list) \<times> gateway" where
  "fetch_tools_dynamic up server g =
     (case client_list_tools up server g of
        (Inl e, g1) \<Rightarrow> (Inl e, g1)
      | (Inr ts, g1) \<Rightarrow>
          (let formatted_tools = map short_form ts;
               g2 = g1\<lparr>tools_cache := (tools_cache g1)(name server \<mapsto> map long_form ts)\<rparr>
           in (Inr formatted_tools, g2)))"

section \<open>Description synthesis: \<^verbatim>\<open>_build_description\<close>\<close>

text \<open>The fixed text before and after the subsystem's name in \<^verbatim>\<open>base_desc\<close>.\<close>

definition base_desc_head :: pystr where
  "base_desc_head = [0x4E0E] @ asc '' **''"

definition base_desc_tail :: pystr where
  "base_desc_tail =
     asc ''** '' @ [0x5B50, 0x7CFB, 0x7EDF, 0x4EA4, 0x4E92, 0x3002] @ [newline, newline] @
     asc ''**'' @ [0x53C2, 0x6570] @ asc ''**:'' @ [newline] @
     asc ''- '' @ [0x60] @ asc ''action'' @ [0x60] @ asc '': '' @
       [0x8981, 0x8C03, 0x7528, 0x7684, 0x5DE5, 0x5177, 0x540D] @ asc '' ('' @
       [0x4F7F, 0x7528] @ asc '' '' @ [0x22] @ asc ''list'' @ [0x22] @ asc '' '' @
       [0x67E5, 0x770B, 0x6240, 0x6709, 0x53EF, 0x7528, 0x5DE5, 0x5177] @ asc '')'' @ [newline] @
     asc ''- '' @ [0x60] @ asc ''params'' @ [0x60] @ asc '': '' @
       [0x5DE5, 0x5177, 0x53C2, 0x6570] @ asc '' ('' @ [0x5B57, 0x5178] @ asc '')'' @
       [newline, newline] @
     asc ''**'' @ [0x793A, 0x4F8B] @ asc ''**: action='' @ [0x22] @ asc ''read_file'' @ [0x22] @
       asc '', params={'' @ [0x22] @ asc ''path'' @ [0x22] @ asc '': '' @ [0x22] @
       asc ''/tmp/test.txt'' @ [0x22] @ asc ''}''"

definition base_desc :: "pystr \<Rightarrow> pystr" where
  "base_desc nm = base_desc_head @ nm @ base_desc_tail"

text \<open>The heading of the preview block, and the two halves of \<^verbatim>\<open>more_msg\<close>.\<close>

definition preview_heading :: pystr where
  "preview_heading =
     [newline, newline] @ asc ''**'' @ [0x53EF, 0x7528, 0x5DE5, 0x5177, 0x5217, 0x8868] @
     asc ''** ('' @ [0x90E8, 0x5206] @ asc ''):'' @ [newline]"

definition more_msg_head :: pystr where
  "more_msg_head = [newline] @ asc ''... ('' @ [0x8FD8, 0x6709] @ asc '' ''"

definition more_msg_tail :: pystr where
  "more_msg_tail =
     asc '' '' @ [0x4E2A, 0x5DE5, 0x5177, 0xFF0C, 0x8BF7, 0x4F7F, 0x7528] @ asc '' list '' @
     [0x67E5, 0x770B, 0x5B8C, 0x6574, 0x5217, 0x8868] @ asc '')''"

text \<open>\<^verbatim>\<open>_build_description\<close> of \<^verbatim>\<open>gateway_mcp_server.py\<close>.\<close>

definition build_description :: "server_config \<Rightarrow> pystr" where
  "build_description server =
     (if tools server \<noteq> [] then
        (let display_tools = take 30 (tools server);
             tools_list = py_join [newline] (map (\<lambda>t. asc ''- '' @ t) display_tools);
             more_msg = (if length (tools server) > 30
                         then more_msg_head @ py_str_nat (length (tools server) - 30) @
                              more_msg_tail
                         else [])
         in base_desc (name server) @ preview_heading @ tools_list @ more_msg)
      else base_desc (name server))"

text \<open>\<^verbatim>\<open>_build_description\<close> of \<^verbatim>\<open>gateway.py\<close>, which takes the name alone.\<close>

definition build_description_basic :: "pystr \<Rightarrow> pystr" where
  "build_description_basic nm = base_desc nm"


section \<open>The list handler: \<^verbatim>\<open>_list_tools\<close>\<close>

text \<open>The failure marker, U+274C (a cross mark).\<close>

definition failure_marker :: pystr where
  "failure_marker = [0x274C]"

text \<open>The bullet of one line of the list, two spaces, U+2022 and a space.\<close>

definition bullet :: pystr where
  "bullet = asc ''  '' @ [0x2022] @ asc '' ''"

text \<open>The heading of a list response, up to and with the empty line after it.\<close>

definition list_heading :: "pystr \<Rightarrow> nat \<Rightarrow> pystr" where
  "list_heading nm n =
     [0x1F4E6] @ asc '' ['' @ nm @ asc ''] '' @ [0x53EF, 0x7528, 0x5DE5, 0x5177] @ asc '' ('' @
     py_str_nat n @ asc '' '' @ [0x4E2A] @ asc ''):'' @ [newline, newline]"

text \<open>The lines after the heading: \<^verbatim>\<open>"\n".join(f"  (bullet) {t}" for t in tools)\<close>.\<close>

definition list_body :: "pystr list \<Rightarrow> pystr" where
  "list_body ts = py_join [newline] (map (\<lambda>t. bullet @ t) ts)"

text \<open>The number of lines of a text that start with the bullet.\<close>

definition bulleted_lines :: "pystr \<Rightarrow> nat" where
  "bulleted_lines body = length (filter (prefix bullet) (py_split newline body))"

definition format_tools :: "server_config \<Rightarrow> pystr list \<Rightarrow> pystr" where
  "format_tools server ts = list_heading (name server) (length ts) @ list_body ts"

text \<open>The string of the \<^verbatim>\<open>except\<close> branch of \<^verbatim>\<open>_list_tools\<close>.\<close>

definition list_failure :: "exn \<Rightarrow> pystr" where
  "list_failure e =
     failure_marker @ asc '' '' @ [0x65E0, 0x6CD5, 0x83B7, 0x53D6, 0x5DE5, 0x5177, 0x5217, 0x8868] @
     asc '': '' @ exn_str e"

text \<open>\<^verbatim>\<open>self._tools_cache[server.name]\<close>: a missing key raises \<^verbatim>\<open>KeyError\<close>, whose text is
  the \<^verbatim>\<open>repr\<close> of the key; the model keeps the key itself.\<close>

definition cache_subscript :: "gateway \<Rightarrow> pystr \<Rightarrow> exn + pystr list" where
  "cache_subscript g nm =
     (case tools_cache g nm of None \<Rightarrow> Inl (Exn nm) | Some ts \<Rightarrow> Inr ts)"

text \<open>
  \<^verbatim>\<open>_list_tools\<close> of \<^verbatim>\<open>gateway_mcp_server.py\<close>.  The result is \<open>Inl\<close> when the coroutine
  raises and \<open>Inr\<close> when it returns a string.
\<close>

definition list_tools ::
  "upstream \<Rightarrow> server_config \<Rightarrow> gateway \<Rightarrow> (exn + pystr) \<times> gateway" where
  "list_tools up server g =
     (if tools_cache g (name server) \<noteq> None then
        (case cache_subscript g (name server) of
           Inl e \<Rightarrow> (Inl e, g)
         | Inr ts \<Rightarrow> (Inr (format_tools server ts), g))
      else
        (case client_list_tools up server g of
           (Inl e, g1) \<Rightarrow> (Inr (list_failure e), g1)
         | (Inr tls, g1) \<Rightarrow>
             (let g2 = g1\<lparr>tools_cache := (tools_cache g1)(name server \<mapsto> map long_form tls)\<rparr>
              in (case cache_subscript g2 (name server) of
                    Inl e \<Rightarrow> (Inl e, g2)
                  | Inr ts \<Rightarrow> (Inr (format_tools server ts), g2)))))"

text \<open>
  \<^verbatim>\<open>_list_tools\<close> of \<^verbatim>\<open>gateway.py\<close>: the cache is filled under \<^verbatim>\<open>if server.name not in
  self._tools_cache\<close>, with an early return from the \<^verbatim>\<open>except\<close> branch, and read afterwards.
\<close>

definition list_tools_basic ::
  "upstream \<Rightarrow> server_config \<Rightarrow> gateway \<Rightarrow> (exn + pystr) \<times> gateway" where
  "list_tools_basic up server g =
     (case (if tools_cache g (name server) = None then
              (case client_list_tools up server g of
                 (Inl e, g1) \<Rightarrow> Inl (list_failure e, g1)
               | (Inr tls, g1) \<Rightarrow>
                   Inr (g1\<lparr>tools_cache := (tools_cache g1)(name server \<mapsto> map long_form tls)\<rparr>))
            else Inr g) of
        Inl (msg, g1) \<Rightarrow> (Inr msg, g1)
      | Inr g2 \<Rightarrow>
          (case cache_subscript g2 (name server) of
             Inl e \<Rightarrow> (Inl e, g2)
           | Inr ts \<Rightarrow> (Inr (format_tools server ts), g2)))"

section \<open>Result normalization: \<^verbatim>\<open>_extract_content\<close>\<close>

text \<open>What one content item appends to \<^verbatim>\<open>parts\<close>: \<^verbatim>\<open>item.text\<close> as it is, else
  \<^verbatim>\<open>str(item.data)\<close>, else \<^verbatim>\<open>str(item)\<close>.\<close>

definition content_part :: "pyval \<Rightarrow> pyval" where
  "content_part item =
     (case py_getattr item ''text'' of
        Some t \<Rightarrow> t
      | None \<Rightarrow>
          (case py_getattr item ''data'' of
             Some d \<Rightarrow> PyStr (py_str d)
           | None \<Rightarrow> PyStr (py_str item)))"

definition extract_content :: "pyval \<Rightarrow> exn + pystr" where
  "extract_content result =
     (case py_getattr result ''content'' of
        None \<Rightarrow> Inr (py_str result)
      | Some content \<Rightarrow>
          if \<not> py_truth content then Inr (py_str result)
          else (case py_iter content of
                  Inl e \<Rightarrow> Inl e
                | Inr items \<Rightarrow> py_join_vals [newline] (map content_part items)))"


section \<open>The invoke handler: \<^verbatim>\<open>_call_tool\<close>\<close>

text \<open>The string of the \<^verbatim>\<open>except\<close> branch of \<^verbatim>\<open>_call_tool\<close>.\<close>

definition call_failure :: "server_config \<Rightarrow> pystr \<Rightarrow> exn \<Rightarrow> pystr" where
  "call_failure server action e =
     failure_marker @ asc '' ['' @ name server @ asc ''] '' @ [0x8C03, 0x7528] @ asc '' '' @
     [0x60] @ action @ [0x60] @ asc '' '' @ [0x5931, 0x8D25] @ asc '': '' @ exn_str e"

text \<open>The body of the \<^verbatim>\<open>try\<close> block.\<close>

definition call_tool_try ::
  "upstream \<Rightarrow> server_config \<Rightarrow> pystr \<Rightarrow> params \<Rightarrow> gateway \<Rightarrow> (exn + pystr) \<times> gateway" where
  "call_tool_try up server action ps g =
     (case client_call_tool up server action ps g of
        (Inl e, g1) \<Rightarrow> (Inl e, g1)
      | (Inr result, g1) \<Rightarrow> (extract_content result, g1))"

definition call_tool ::
  "upstream \<Rightarrow> server_config \<Rightarrow> pystr \<Rightarrow> params \<Rightarrow> gateway \<Rightarrow> (exn + pystr) \<times> gateway" where
  "call_tool up server action ps g =
     (case call_tool_try up server action ps g of
        (Inl e, g1) \<Rightarrow> (Inr (call_failure server action e), g1)
      | (Inr s, g1) \<Rightarrow> (Inr s, g1))"

section \<open>The dispatcher\<close>

text \<open>\<^verbatim>\<open>_handle_dispatch\<close> of \<^verbatim>\<open>gateway_mcp_server.py\<close>.\<close>

definition handle_dispatch ::
  "upstream \<Rightarrow> server_config \<Rightarrow> pystr \<Rightarrow> params \<Rightarrow> gateway \<Rightarrow> (exn + pystr) \<times> gateway" where
  "handle_dispatch up server action ps g =
     (if action = asc ''list'' then list_tools up server g
      else call_tool up server action ps g)"

text \<open>\<^verbatim>\<open>_handle_dispatch\<close> of \<^verbatim>\<open>gateway.py\<close>, which calls that file's \<^verbatim>\<open>_list_tools\<close>.\<close>

definition handle_dispatch_basic ::
  "upstream \<Rightarrow> server_config \<Rightarrow> pystr \<Rightarrow> params \<Rightarrow> gateway \<Rightarrow> (exn + pystr) \<times> gateway" where
  "handle_dispatch_basic up server action ps g =
     (if action = asc ''list'' then list_tools_basic up server g
      else call_tool up server action ps g)"

text \<open>
  The closure \<^verbatim>\<open>dispatch(action, params = {})\<close> that \<^verbatim>\<open>_register_tool\<close> registers: \<open>None\<close>
  stands for a call that omits \<^verbatim>\<open>params\<close>.
\<close>

definition dispatch ::
  "upstream \<Rightarrow> server_config \<Rightarrow> pystr \<Rightarrow> params option \<Rightarrow> gateway \<Rightarrow> (exn + pystr) \<times> gateway" where
  "dispatch up server action ps g =
     handle_dispatch up server action (case ps of None \<Rightarrow> [] | Some p \<Rightarrow> p) g"

definition dispatch_basic ::
  "upstream \<Rightarrow> server_config \<Rightarrow> pystr \<Rightarrow> params option \<Rightarrow> gateway \<Rightarrow> (exn + pystr) \<times> gateway" where
  "dispatch_basic up server action ps g =
     handle_dispatch_basic up server action (case ps of None \<Rightarrow> [] | Some p \<Rightarrow> p) g"

section \<open>Registration: \<^verbatim>\<open>_register_tool\<close> and \<^verbatim>\<open>add_server\<close>\<close>

text \<open>The name of the entry point, \<^verbatim>\<open>f"use_{server.name}"\<close>.\<close>

definition entry_point_name :: "pystr \<Rightarrow> pystr" where
  "entry_point_name nm = asc ''use_'' @ nm"

text \<open>
  Modelled from the spec: the table of callables behind \<^verbatim>\<open>self.app.tool(...)\<close> belongs to
  the \<^verbatim>\<open>FastMCP\<close> library, which is not part of the repository.  The spec describes it as
  \<open>register(name, description, handler)\<close> with one entry point per name, a second
  registration under a name replacing the first.
\<close>

definition app_register :: "pystr \<Rightarrow> entry_point \<Rightarrow> gateway \<Rightarrow> gateway" where
  "app_register nm ep g = g\<lparr>app := AList.update nm ep (app g)\<rparr>"

definition register_tool :: "server_config \<Rightarrow> gateway \<Rightarrow> gateway" where
  "register_tool server g =
     app_register (entry_point_name (name server))
       \<lparr>ep_description = build_description server, ep_server = server\<rparr> g"

definition register_tool_basic :: "server_config \<Rightarrow> gateway \<Rightarrow> gateway" where
  "register_tool_basic server g =
     app_register (entry_point_name (name server))
       \<lparr>ep_description = build_description_basic (name server), ep_server = server\<rparr> g"

text \<open>
  \<^verbatim>\<open>add_server\<close> of \<^verbatim>\<open>gateway_mcp_server.py\<close>.  Discovery runs first; when it succeeds the
  config's \<^verbatim>\<open>tools\<close> are set, when it raises the config is left as it was.  The progress
  messages the method prints are not modelled.
\<close>

definition add_server :: "upstream \<Rightarrow> server_config \<Rightarrow> gateway \<Rightarrow> gateway" where
  "add_server up server g =
     (case fetch_tools_dynamic up server g of
        (Inr ts, g1) \<Rightarrow>
          (let server1 = server\<lparr>tools := ts\<rparr>
           in register_tool server1 (g1\<lparr>servers := (servers g1)(name server1 \<mapsto> server1)\<rparr>))
      | (Inl e, g1) \<Rightarrow>
          register_tool server (g1\<lparr>servers := (servers g1)(name server \<mapsto> server)\<rparr>))"

text \<open>\<^verbatim>\<open>add_server\<close> of \<^verbatim>\<open>gateway.py\<close>: no discovery.\<close>

definition add_server_basic :: "server_config \<Rightarrow> gateway \<Rightarrow> gateway" where
  "add_server_basic server g =
     register_tool_basic server (g\<lparr>servers := (servers g)(name server \<mapsto> server)\<rparr>)"

text \<open>The number of discovery calls among the sessions opened so far.\<close>

definition discovery_calls :: "gateway \<Rightarrow> nat" where
  "discovery_calls g = length (filter (\<lambda>s. snd s = ListTools) (client_sessions g))"


section \<open>Example data\<close>

text \<open>A subsystem \<open>A\<close> as \<^verbatim>\<open>load_config\<close> builds it from \<^verbatim>\<open>{"A": {"command": "x"}}\<close>.\<close>

definition ex_server :: server_config where
  "ex_server = \<lparr>name = asc ''A'', command = asc ''x'', args = [], env = [], tools = []\<rparr>"

text \<open>A second config under the same name, with another command.\<close>

definition ex_server2 :: server_config where
  "ex_server2 = \<lparr>name = asc ''A'', command = asc ''y'', args = [], env = [], tools = []\<rparr>"

definition ex_boom :: exn where
  "ex_boom = Exn (asc ''boom'')"

text \<open>Two tools: one with a description of two lines, one without a description.\<close>

definition ex_tools :: "tool list" where
  "ex_tools =
     [\<lparr>tool_name = asc ''read'',
       tool_description = Some (asc ''Read a file'' @ [newline] @ asc ''  '' @ [0x2022] @ asc '' fast'')\<rparr>,
      \<lparr>tool_name = asc ''ping'', tool_description = None\<rparr>]"

text \<open>A tool whose description has 100 characters.\<close>

definition ex_long_tool :: tool where
  "ex_long_tool = \<lparr>tool_name = asc ''big'', tool_description = Some (replicate 100 0x61)\<rparr>"

text \<open>A config carrying 31 short-form entries.\<close>

definition ex_server31 :: server_config where
  "ex_server31 = ex_server\<lparr>tools := replicate 31 (asc ''t: d'')\<rparr>"

text \<open>Three content items: a text item, an item with data, an item with neither; the
  list of them; and a result whose \<^verbatim>\<open>content\<close> is that list.\<close>

definition ex_items :: "pyval list" where
  "ex_items =
     [PyObj (asc ''TextContent'') (asc ''TextContent()'') True None
        [(''text'', PyStr (asc ''hello''))],
      PyObj (asc ''ImageContent'') (asc ''ImageContent()'') True None
        [(''data'', PyStr (asc ''aGk=''))],
      PyObj (asc ''EmbeddedResource'') (asc ''EmbeddedResource()'') True None []]"

definition ex_content :: pyval where
  "ex_content = PyObj (asc ''list'') (asc ''[]'') True (Some ex_items) []"

definition ex_result :: pyval where
  "ex_result =
     PyObj (asc ''CallToolResult'') (asc ''CallToolResult()'') True None
       [(''content'', ex_content)]"



text \<open>Two cache entries of one line each, and a gateway whose cache holds them for
  \<open>A\<close>.\<close>

definition ex_entries :: "pystr list" where
  "ex_entries = [asc ''a: b'', asc ''c: d'']"

definition ex_cached :: gateway where
  "ex_cached = new_gateway\<lparr>tools_cache := [asc ''A'' \<mapsto> ex_entries]\<rparr>"

text \<open>An upstream where every session fails, one where every session succeeds, and one
  where only the first session fails.\<close>

definition ex_up_fail :: upstream where
  "ex_up_fail =
     \<lparr>enumerate_operations = (\<lambda>h c. Inl ex_boom),
      invoke_operation = (\<lambda>h c a p. Inl ex_boom)\<rparr>"

definition ex_up_ok :: upstream where
  "ex_up_ok =
     \<lparr>enumerate_operations = (\<lambda>h c. Inr ex_tools),
      invoke_operation = (\<lambda>h c a p. Inr ex_result)\<rparr>"


section \<open>Basic facts about the handlers\<close>

lemma list_tools_hit:
  "tools_cache g (name server) = Some ts \<Longrightarrow>
   list_tools up server g = (Inr (format_tools server ts), g)"
  by (simp add: list_tools_def cache_subscript_def)

lemma list_tools_miss_fail:
  "tools_cache g (name server) = None \<Longrightarrow>
   enumerate_operations up (client_sessions g) (client_config server) = Inl e \<Longrightarrow>
   list_tools up server g =
     (Inr (list_failure e),
      g\<lparr>client_sessions := client_sessions g @ [(client_config server, ListTools)]\<rparr>)"
  by (simp add: list_tools_def client_list_tools_def)

lemma list_tools_miss_ok:
  "tools_cache g (name server) = None \<Longrightarrow>
   enumerate_operations up (client_sessions g) (client_config server) = Inr tls \<Longrightarrow>
   list_tools up server g =
     (Inr (format_tools server (map long_form tls)),
      g\<lparr>client_sessions := client_sessions g @ [(client_config server, ListTools)],
        tools_cache := (tools_cache g)(name server \<mapsto> map long_form tls)\<rparr>)"
  by (simp add: list_tools_def client_list_tools_def cache_subscript_def)

text \<open>The two files' list handlers compute the same function.\<close>

lemma list_tools_basic_eq: "list_tools_basic up server g = list_tools up server g"
proof (cases "tools_cache g (name server)")
  case None
  show ?thesis
  proof (cases "enumerate_operations up (client_sessions g) (client_config server)")
    case (Inl e)
    with None show ?thesis
      by (simp add: list_tools_basic_def list_tools_def client_list_tools_def)
  next
    case (Inr tls)
    with None show ?thesis
      by (simp add: list_tools_basic_def list_tools_def client_list_tools_def cache_subscript_def)
  qed
next
  case (Some ts)
  then show ?thesis
    by (simp add: list_tools_basic_def list_tools_def cache_subscript_def)
qed

lemma dispatch_basic_eq: "dispatch_basic up server action ps g = dispatch up server action ps g"
  by (simp add: dispatch_basic_def dispatch_def handle_dispatch_basic_def handle_dispatch_def
      list_tools_basic_eq)

lemma dispatch_list: "dispatch up server (asc ''list'') ps g = list_tools up server g"
  by (simp add: dispatch_def handle_dispatch_def)

lemma fetch_tools_dynamic_ok:
  "enumerate_operations up (client_sessions g) (client_config server) = Inr ts \<Longrightarrow>
   fetch_tools_dynamic up server g =
     (Inr (map short_form ts),
      g\<lparr>client_sessions := client_sessions g @ [(client_config server, ListTools)],
        tools_cache := (tools_cache g)(name server \<mapsto> map long_form ts)\<rparr>)"
  by (simp add: fetch_tools_dynamic_def client_list_tools_def)

lemma fetch_tools_dynamic_fail:
  "enumerate_operations up (client_sessions g) (client_config server) = Inl e \<Longrightarrow>
   fetch_tools_dynamic up server g =
     (Inl e, g\<lparr>client_sessions := client_sessions g @ [(client_config server, ListTools)]\<rparr>)"
  by (simp add: fetch_tools_dynamic_def client_list_tools_def)



lemma py_split_not_Nil: "py_split sep s \<noteq> []"
  by (induction s) (simp_all split: list.split)

lemma hd_py_split: "hd (py_split sep s) = takeWhile (\<lambda>c. c \<noteq> sep) s"
  by (induction s) (auto simp: py_split_not_Nil split: list.split)

section \<open>Failures at the entry point\<close>

lemma list_tools_returns: "\<exists>s. fst (list_tools up server g) = Inr s"
proof (cases "tools_cache g (name server)")
  case None
  then show ?thesis
    by (cases "enumerate_operations up (client_sessions g) (client_config server)")
      (simp_all add: list_tools_miss_fail list_tools_miss_ok)
next
  case (Some ts)
  then show ?thesis by (simp add: list_tools_hit)
qed

lemma call_tool_returns: "\<exists>s. fst (call_tool up server action p g) = Inr s"
  by (simp add: call_tool_def split: prod.split sum.split)

lemma dispatch_returns: "\<exists>s. fst (dispatch up server action ps g) = Inr s"
  by (simp add: dispatch_def handle_dispatch_def list_tools_returns call_tool_returns)

lemma call_tool_client_failure:
  "invoke_operation up (client_sessions g) (client_config server) action p = Inl e \<Longrightarrow>
   fst (call_tool up server action p g) = Inr (call_failure server action e)"
  by (simp add: call_tool_def call_tool_try_def client_call_tool_def)

lemma call_failure_parts:
  "prefix failure_marker (call_failure server action e) \<and>
   sublist (name server) (call_failure server action e) \<and>
   sublist action (call_failure server action e) \<and>
   suffix (exn_str e) (call_failure server action e)"
proof -
  let ?a = "failure_marker @ asc '' [''"
  let ?b = "asc ''] '' @ [0x8C03, 0x7528] @ asc '' '' @ [0x60]"
  let ?c = "[0x60] @ asc '' '' @ [0x5931, 0x8D25] @ asc '': ''"
  have shape: "call_failure server action e = ?a @ name server @ ?b @ action @ ?c @ exn_str e"
    by (simp add: call_failure_def)
  have 1: "prefix failure_marker (call_failure server action e)"
    by (simp add: call_failure_def)
  have 2: "sublist (name server) (?a @ name server @ (?b @ action @ ?c @ exn_str e))"
    by (rule sublist_appendI)
  have 3: "sublist action ((?a @ name server @ ?b) @ action @ (?c @ exn_str e))"
    by (rule sublist_appendI)
  have 4: "suffix (exn_str e) ((?a @ name server @ ?b @ action @ ?c) @ exn_str e)"
    by (rule suffix_appendI) simp
  from 1 2 3 4 show ?thesis
    by (simp add: shape)
qed

lemma list_failure_parts:
  "prefix failure_marker (list_failure e) \<and> suffix (exn_str e) (list_failure e)"
proof -
  let ?a = "failure_marker @ asc '' '' @
     [0x65E0, 0x6CD5, 0x83B7, 0x53D6, 0x5DE5, 0x5177, 0x5217, 0x8868] @ asc '': ''"
  have "suffix (exn_str e) (?a @ exn_str e)"
    by (rule suffix_appendI) simp
  then show ?thesis
    by (simp add: list_failure_def)
qed

text \<open>
  C1, as the code has it.  A dispatch never raises: in both files it returns a string for
  every upstream, config, action, params and state.  When the client session of a list
  dispatch fails on a cache miss, the string is the failure marker, a fixed text and the
  failure's text.  When the client session of an invoke dispatch fails, the string is the
  failure marker, the subsystem's name in brackets, the attempted action in backquotes and
  the failure's text.
\<close>

theorem dispatch_failure_strings:
  "(\<exists>s. fst (dispatch up server action ps g) = Inr s) \<and>
   (\<exists>s. fst (dispatch_basic up server action ps g) = Inr s) \<and>
   (tools_cache g (name server) = None \<and>
    enumerate_operations up (client_sessions g) (client_config server) = Inl e \<longrightarrow>
      fst (dispatch up server (asc ''list'') ps g) = Inr (list_failure e) \<and>
      prefix failure_marker (list_failure e) \<and>
      suffix (exn_str e) (list_failure e)) \<and>
   (action \<noteq> asc ''list'' \<and>
    invoke_operation up (client_sessions g) (client_config server) action
      (case ps of None \<Rightarrow> [] | Some p \<Rightarrow> p) = Inl e \<longrightarrow>
      fst (dispatch up server action ps g) = Inr (call_failure server action e) \<and>
      prefix failure_marker (call_failure server action e) \<and>
      sublist (name server) (call_failure server action e) \<and>
      sublist action (call_failure server action e) \<and>
      suffix (exn_str e) (call_failure server action e))"
proof -
  have a: "\<exists>s. fst (dispatch up server action ps g) = Inr s"
    by (rule dispatch_returns)
  have b: "\<exists>s. fst (dispatch_basic up server action ps g) = Inr s"
    by (simp add: dispatch_basic_eq dispatch_returns)
  have c: "fst (dispatch up server (asc ''list'') ps g) = Inr (list_failure e)"
    if "tools_cache g (name server) = None"
      and "enumerate_operations up (client_sessions g) (client_config server) = Inl e"
    using that by (simp add: dispatch_list list_tools_miss_fail)
  have d: "fst (dispatch up server action ps g) = Inr (call_failure server action e)"
    if "action \<noteq> asc ''list''"
      and "invoke_operation up (client_sessions g) (client_config server) action
        (case ps of None \<Rightarrow> [] | Some p \<Rightarrow> p) = Inl e"
    using that by (simp add: dispatch_def handle_dispatch_def call_tool_client_failure)
  from a b c d list_failure_parts [of e] call_failure_parts [of server action e]
  show ?thesis by blast
qed

theorem dispatch_failure_strings_witness:
  "fst (dispatch ex_up_fail ex_server (asc ''list'') None new_gateway) = Inr (list_failure ex_boom) \<and>
   fst (dispatch ex_up_fail ex_server (asc ''read'') None new_gateway) =
     Inr (call_failure ex_server (asc ''read'') ex_boom) \<and>
   sublist (name ex_server) (call_failure ex_server (asc ''read'') ex_boom) \<and>
   sublist (asc ''read'') (call_failure ex_server (asc ''read'') ex_boom)"
proof -
  have h1: "tools_cache new_gateway (name ex_server) = None"
    by (simp add: new_gateway_def)
  have h2: "enumerate_operations ex_up_fail (client_sessions new_gateway)
      (client_config ex_server) = Inl ex_boom"
    by (simp add: ex_up_fail_def)
  have h3: "asc ''read'' \<noteq> asc ''list''"
    by (simp add: asc_def)
  have h4: "invoke_operation ex_up_fail (client_sessions new_gateway) (client_config ex_server)
      (asc ''read'') (case None of None \<Rightarrow> [] | Some p \<Rightarrow> p) = Inl ex_boom"
    by (simp add: ex_up_fail_def)
  from h1 h2 dispatch_failure_strings [of ex_up_fail ex_server "asc ''list''" None new_gateway ex_boom]
  have l: "fst (dispatch ex_up_fail ex_server (asc ''list'') None new_gateway) =
      Inr (list_failure ex_boom)"
    by blast
  from h3 h4 dispatch_failure_strings [of ex_up_fail ex_server "asc ''read''" None new_gateway ex_boom]
  have c: "fst (dispatch ex_up_fail ex_server (asc ''read'') None new_gateway) =
     Inr (call_failure ex_server (asc ''read'') ex_boom) \<and>
   sublist (name ex_server) (call_failure ex_server (asc ''read'') ex_boom) \<and>
   sublist (asc ''read'') (call_failure ex_server (asc ''read'') ex_boom)"
    by blast
  from l c show ?thesis by blast
qed

text \<open>
  C1, as it is stated, asks for the subsystem's name in the list failure string too.  With
  the subsystem \<open>A\<close> and an upstream that fails with \<open>boom\<close>, the list dispatch returns
  the marker, the fixed text and \<open>boom\<close>: the name is nowhere in it.
\<close>

theorem list_failure_lacks_name:
  "tools_cache new_gateway (name ex_server) = None \<and>
   enumerate_operations ex_up_fail (client_sessions new_gateway) (client_config ex_server) =
     Inl ex_boom \<and>
   fst (dispatch ex_up_fail ex_server (asc ''list'') None new_gateway) =
     Inr (list_failure ex_boom) \<and>
   name ex_server = asc ''A'' \<and>
   \<not> sublist (name ex_server) (list_failure ex_boom)"
proof -
  have "\<not> sublist (name ex_server) (list_failure ex_boom)"
    by (simp add: ex_server_def list_failure_def ex_boom_def failure_marker_def asc_def
        sublist_code)
  then show ?thesis
    by (simp add: dispatch_list list_tools_miss_fail new_gateway_def ex_up_fail_def ex_server_def)
qed

section \<open>Routing\<close>

text \<open>
  C2.  In both files, a dispatch whose action is the literal \<open>list\<close> returns what the list
  handler returns for that subsystem, whatever the params are.  A dispatch with any other
  action returns what the invoke handler returns for that action as the operation name and
  the params as its argument, and with the empty dict when the params are omitted.  The
  comparison is exact, so no other action string (\<open>List\<close>, for one) is special.
\<close>

theorem dispatch_routes:
  "dispatch up server (asc ''list'') ps g = list_tools up server g \<and>
   dispatch_basic up server (asc ''list'') ps g = list_tools_basic up server g \<and>
   (action \<noteq> asc ''list'' \<longrightarrow>
      dispatch up server action (Some p) g = call_tool up server action p g \<and>
      dispatch up server action None g = call_tool up server action [] g \<and>
      dispatch_basic up server action (Some p) g = call_tool up server action p g \<and>
      dispatch_basic up server action None g = call_tool up server action [] g)"
  by (simp add: dispatch_def dispatch_basic_def handle_dispatch_def handle_dispatch_basic_def)

theorem dispatch_routes_witness:
  "asc ''List'' \<noteq> asc ''list'' \<and>
   dispatch ex_up_ok ex_server (asc ''List'') (Some []) new_gateway =
     call_tool ex_up_ok ex_server (asc ''List'') [] new_gateway \<and>
   dispatch ex_up_ok ex_server (asc ''List'') None new_gateway =
     call_tool ex_up_ok ex_server (asc ''List'') [] new_gateway \<and>
   fst (dispatch ex_up_ok ex_server (asc ''List'') None new_gateway) =
     Inr (asc ''hello'' @ [newline] @ asc ''aGk='' @ [newline] @ asc ''EmbeddedResource()'')"
proof -
  have ne: "asc ''List'' \<noteq> asc ''list''"
    by (simp add: asc_def)
  have run: "fst (call_tool ex_up_ok ex_server (asc ''List'') [] new_gateway) =
     Inr (asc ''hello'' @ [newline] @ asc ''aGk='' @ [newline] @ asc ''EmbeddedResource()'')"
    by (simp add: call_tool_def call_tool_try_def client_call_tool_def ex_up_ok_def
        extract_content_def ex_result_def ex_content_def ex_items_def py_join_vals_def
        content_part_def)
  from ne run dispatch_routes [of ex_up_ok ex_server None new_gateway "asc ''List''" "[]"]
  show ?thesis by simp
qed

section \<open>Result normalization\<close>









section \<open>Short and long forms at discovery\<close>

text \<open>
  C4.  When the enumerate call of startup discovery succeeds, the list returned for the
  description holds the short form of every tool and the cache entry holds the long form of
  every tool, in the upstream's order.  The short form is the tool's name, a colon and the
  first line of the stripped description (of the default text when the upstream gives
  none); a line of more than 80 characters is cut to its first 77 characters followed by
  three dots, 80 characters in all.  The long form is the name, a colon and the whole
  description (or the default text): nothing is cut.
\<close>

theorem discovery_short_and_long_forms:
  "(enumerate_operations up (client_sessions g) (client_config server) = Inr ts \<longrightarrow>
      fst (fetch_tools_dynamic up server g) = Inr (map short_form ts) \<and>
      tools_cache (snd (fetch_tools_dynamic up server g)) (name server) =
        Some (map long_form ts)) \<and>
   short_form t =
     tool_name t @ asc '': '' @
     (let line = takeWhile (\<lambda>c. c \<noteq> newline) (py_strip (description_or_default t))
      in if 80 < length line then take 77 line @ asc ''...'' else line) \<and>
   (80 < length (takeWhile (\<lambda>c. c \<noteq> newline) (py_strip (description_or_default t))) \<longrightarrow>
      length (short_form t) = length (tool_name t) + 2 + 80) \<and>
   long_form t = tool_name t @ asc '': '' @ description_or_default t \<and>
   description_or_default t =
     (case tool_description t of
        None \<Rightarrow> no_description
      | Some d \<Rightarrow> if d = [] then no_description else d)"
proof -
  have s: "short_form t =
     tool_name t @ asc '': '' @
     (let line = takeWhile (\<lambda>c. c \<noteq> newline) (py_strip (description_or_default t))
      in if 80 < length line then take 77 line @ asc ''...'' else line)"
    by (simp add: short_form_def hd_py_split Let_def)
  have l: "length (short_form t) = length (tool_name t) + 2 + 80"
    if "80 < length (takeWhile (\<lambda>c. c \<noteq> newline) (py_strip (description_or_default t)))"
    using that by (simp add: s Let_def asc_def)
  from s l show ?thesis
    by (simp add: fetch_tools_dynamic_ok long_form_def description_or_default_def)
qed

theorem discovery_short_and_long_forms_witness:
  "fst (fetch_tools_dynamic ex_up_ok ex_server new_gateway) = Inr (map short_form ex_tools) \<and>
   tools_cache (snd (fetch_tools_dynamic ex_up_ok ex_server new_gateway)) (name ex_server) =
     Some (map long_form ex_tools) \<and>
   short_form ex_long_tool = asc ''big: '' @ replicate 77 0x61 @ asc ''...'' \<and>
   length (short_form ex_long_tool) = 3 + 2 + 80 \<and>
   long_form ex_long_tool = asc ''big: '' @ replicate 100 0x61"
proof -
  have h: "enumerate_operations ex_up_ok (client_sessions new_gateway) (client_config ex_server) =
      Inr ex_tools"
    by (simp add: ex_up_ok_def)
  have d: "description_or_default ex_long_tool = replicate 100 0x61"
    by (simp add: description_or_default_def ex_long_tool_def)
  have line: "takeWhile (\<lambda>c. c \<noteq> newline) (py_strip (description_or_default ex_long_tool)) =
      replicate 100 0x61"
    by (simp add: d py_strip_def py_isspace_def newline_def dropWhile_replicate takeWhile_replicate)
  have n: "tool_name ex_long_tool = asc ''big''"
    by (simp add: ex_long_tool_def)
  note T = discovery_short_and_long_forms [of ex_up_ok new_gateway ex_server ex_tools ex_long_tool]
  from h T have f: "fst (fetch_tools_dynamic ex_up_ok ex_server new_gateway) =
      Inr (map short_form ex_tools) \<and>
    tools_cache (snd (fetch_tools_dynamic ex_up_ok ex_server new_gateway)) (name ex_server) =
      Some (map long_form ex_tools)"
    by blast
  from T have "short_form ex_long_tool =
     tool_name ex_long_tool @ asc '': '' @
     (let line = takeWhile (\<lambda>c. c \<noteq> newline) (py_strip (description_or_default ex_long_tool))
      in if 80 < length line then take 77 line @ asc ''...'' else line)"
    by blast
  then have s: "short_form ex_long_tool = asc ''big: '' @ replicate 77 0x61 @ asc ''...''"
    by (simp add: line n asc_def)
  from T have "long_form ex_long_tool =
      tool_name ex_long_tool @ asc '': '' @ description_or_default ex_long_tool"
    by blast
  then have l: "long_form ex_long_tool = asc ''big: '' @ replicate 100 0x61"
    by (simp add: d n asc_def)
  from T have imp:
    "80 < length (takeWhile (\<lambda>c. c \<noteq> newline) (py_strip (description_or_default ex_long_tool))) \<longrightarrow>
     length (short_form ex_long_tool) = length (tool_name ex_long_tool) + 2 + 80"
    by blast
  have "80 < length (takeWhile (\<lambda>c. c \<noteq> newline) (py_strip (description_or_default ex_long_tool)))"
    by (simp add: line)
  with imp have "length (short_form ex_long_tool) = length (tool_name ex_long_tool) + 2 + 80"
    by blast
  then have "length (short_form ex_long_tool) = 3 + 2 + 80"
    by (simp add: n asc_def)
  with f s l show ?thesis by blast
qed

section \<open>The preview in the description\<close>

text \<open>
  C5.  The description of \<^verbatim>\<open>gateway_mcp_server.py\<close> always starts with the base text, and it
  differs from the base text (it carries the preview block) exactly when the config's
  short-form list is non-empty.  The block is the heading, then the first
  \<open>min total 30\<close> entries, each behind \<open>- \<close>, one per line, then the remainder message
  with the count \<open>total - 30\<close> exactly when there are more than 30 entries.
\<close>

theorem build_description_preview:
  "(build_description server \<noteq> base_desc (name server)) = (tools server \<noteq> []) \<and>
   prefix (base_desc (name server)) (build_description server) \<and>
   (tools server \<noteq> [] \<longrightarrow>
      build_description server =
        base_desc (name server) @ preview_heading @
        py_join [newline]
          (map (\<lambda>t. asc ''- '' @ t) (take (min (length (tools server)) 30) (tools server))) @
        (if 30 < length (tools server)
         then more_msg_head @ py_str_nat (length (tools server) - 30) @ more_msg_tail
         else [])) \<and>
   length (take (min (length (tools server)) 30) (tools server)) = min (length (tools server)) 30"
proof -
  have tk: "take (min (length (tools server)) 30) (tools server) = take 30 (tools server)"
    by (simp add: min_def)
  have hd: "preview_heading \<noteq> []"
    by (simp add: preview_heading_def)
  show ?thesis
    using hd by (simp add: build_description_def Let_def tk)
qed

theorem build_description_preview_witness:
  "tools ex_server31 \<noteq> [] \<and> 30 < length (tools ex_server31) \<and>
   build_description ex_server31 =
     base_desc (asc ''A'') @ preview_heading @
     py_join [newline] (map (\<lambda>t. asc ''- '' @ t) (replicate 30 (asc ''t: d''))) @
     more_msg_head @ asc ''1'' @ more_msg_tail"
proof -
  have t: "tools ex_server31 = replicate 31 (asc ''t: d'')" and n: "name ex_server31 = asc ''A''"
    by (simp_all add: ex_server31_def ex_server_def)
  have one: "py_str_nat (Suc 0) = asc ''1''"
    by (simp add: py_str_nat.simps asc_def)
  from t n one build_description_preview [of ex_server31]
  show ?thesis by simp
qed

section \<open>The cache over consecutive dispatches\<close>

lemma call_tool_state:
  "snd (call_tool up server action p g) =
     g\<lparr>client_sessions := client_sessions g @ [(client_config server, CallTool action p)]\<rparr>"
  by (simp add: call_tool_def call_tool_try_def client_call_tool_def split: sum.split)

lemma list_tools_keeps_entries:
  assumes "tools_cache g nm = Some ts"
  shows "tools_cache (snd (list_tools up server g)) nm = Some ts"
proof (cases "tools_cache g (name server)")
  case None
  with assms have ne: "nm \<noteq> name server"
    by auto
  show ?thesis
  proof (cases "enumerate_operations up (client_sessions g) (client_config server)")
    case (Inl e)
    with None assms show ?thesis
      by (simp add: list_tools_miss_fail)
  next
    case (Inr tls)
    with None assms ne show ?thesis
      by (simp add: list_tools_miss_ok)
  qed
next
  case (Some us)
  with assms show ?thesis
    by (simp add: list_tools_hit)
qed

lemma dispatch_keeps_entries:
  "tools_cache g nm = Some ts \<Longrightarrow>
   tools_cache (snd (dispatch up server action ps g)) nm = Some ts"
  by (simp add: dispatch_def handle_dispatch_def list_tools_keeps_entries call_tool_state)

lemma discovery_calls_list_session:
  "discovery_calls (g\<lparr>client_sessions := client_sessions g @ [(c, ListTools)]\<rparr>) =
     discovery_calls g + 1"
  by (simp add: discovery_calls_def)

lemma discovery_calls_call_session:
  "discovery_calls (g\<lparr>client_sessions := client_sessions g @ [(c, CallTool a p)]\<rparr>) =
     discovery_calls g"
  by (simp add: discovery_calls_def)

lemma discovery_calls_cache_update:
  "discovery_calls (g\<lparr>tools_cache := m\<rparr>) = discovery_calls g"
  by (simp add: discovery_calls_def)

lemma list_tools_discovery_calls:
  "discovery_calls (snd (list_tools up server g)) \<le> discovery_calls g + 1"
proof (cases "tools_cache g (name server)")
  case None
  then show ?thesis
    by (cases "enumerate_operations up (client_sessions g) (client_config server)")
      (simp_all add: list_tools_miss_fail list_tools_miss_ok discovery_calls_def)
next
  case (Some ts)
  then show ?thesis
    by (simp add: list_tools_hit)
qed

lemma dispatch_discovery_calls:
  "discovery_calls (snd (dispatch up server action ps g)) \<le> discovery_calls g + 1"
  using list_tools_discovery_calls [of up server g]
  by (simp add: dispatch_def handle_dispatch_def call_tool_state discovery_calls_call_session)

text \<open>
  C6, as the code has it.  Once the cache holds an entry for a subsystem's name, a list
  dispatch for that subsystem (in both files) returns the formatted entry and leaves the
  whole state as it was: no session is opened.  No dispatch, for any subsystem and any
  action, removes or changes an entry the cache holds.  A dispatch opens at most one
  discovery session.  Of two consecutive list dispatches for one subsystem, the second
  opens none when the first was answered from the cache or its discovery succeeded: then
  the two together open at most one.
\<close>

theorem cached_list_answers:
  "(tools_cache g (name server) = Some ts \<longrightarrow>
      dispatch up server (asc ''list'') ps g = (Inr (format_tools server ts), g) \<and>
      dispatch_basic up server (asc ''list'') ps g = (Inr (format_tools server ts), g) \<and>
      discovery_calls
        (snd (dispatch up server (asc ''list'') ps2 (snd (dispatch up server (asc ''list'') ps g)))) =
        discovery_calls g) \<and>
   (tools_cache g nm = Some ts \<longrightarrow>
      tools_cache (snd (dispatch up server action ps g)) nm = Some ts \<and>
      tools_cache (snd (dispatch_basic up server action ps g)) nm = Some ts) \<and>
   discovery_calls (snd (dispatch up server action ps g)) \<le> discovery_calls g + 1 \<and>
   (tools_cache g (name server) = None \<and>
    enumerate_operations up (client_sessions g) (client_config server) = Inr tls \<longrightarrow>
      tools_cache (snd (dispatch up server (asc ''list'') ps g)) (name server) =
        Some (map long_form tls) \<and>
      dispatch up server (asc ''list'') ps2 (snd (dispatch up server (asc ''list'') ps g)) =
        (Inr (format_tools server (map long_form tls)),
         snd (dispatch up server (asc ''list'') ps g)) \<and>
      discovery_calls
        (snd (dispatch up server (asc ''list'') ps2 (snd (dispatch up server (asc ''list'') ps g)))) =
        discovery_calls g + 1)"
proof -
  have a: "dispatch up server (asc ''list'') ps g = (Inr (format_tools server ts), g) \<and>
      dispatch_basic up server (asc ''list'') ps g = (Inr (format_tools server ts), g) \<and>
      discovery_calls
        (snd (dispatch up server (asc ''list'') ps2 (snd (dispatch up server (asc ''list'') ps g)))) =
        discovery_calls g"
    if "tools_cache g (name server) = Some ts"
    using that by (simp add: dispatch_basic_eq dispatch_list list_tools_hit)
  have b: "tools_cache (snd (dispatch up server action ps g)) nm = Some ts \<and>
      tools_cache (snd (dispatch_basic up server action ps g)) nm = Some ts"
    if "tools_cache g nm = Some ts"
    using that by (simp add: dispatch_basic_eq dispatch_keeps_entries)
  have c: "discovery_calls (snd (dispatch up server action ps g)) \<le> discovery_calls g + 1"
    by (rule dispatch_discovery_calls)
  have d: "tools_cache (snd (dispatch up server (asc ''list'') ps g)) (name server) =
        Some (map long_form tls) \<and>
      dispatch up server (asc ''list'') ps2 (snd (dispatch up server (asc ''list'') ps g)) =
        (Inr (format_tools server (map long_form tls)),
         snd (dispatch up server (asc ''list'') ps g)) \<and>
      discovery_calls
        (snd (dispatch up server (asc ''list'') ps2 (snd (dispatch up server (asc ''list'') ps g)))) =
        discovery_calls g + 1"
    if miss: "tools_cache g (name server) = None"
      and ok: "enumerate_operations up (client_sessions g) (client_config server) = Inr tls"
  proof -
    let ?g1 = "g\<lparr>client_sessions := client_sessions g @ [(client_config server, ListTools)],
        tools_cache := (tools_cache g)(name server \<mapsto> map long_form tls)\<rparr>"
    have first: "list_tools up server g = (Inr (format_tools server (map long_form tls)), ?g1)"
      using miss ok by (rule list_tools_miss_ok)
    have hit: "tools_cache ?g1 (name server) = Some (map long_form tls)"
      by simp
    have second: "list_tools up server ?g1 = (Inr (format_tools server (map long_form tls)), ?g1)"
      using hit by (rule list_tools_hit)
    have n: "discovery_calls ?g1 = discovery_calls g + 1"
      by (simp add: discovery_calls_def)
    from first second hit n show ?thesis
      by (simp add: dispatch_list)
  qed
  from a b c d show ?thesis by blast
qed

theorem cached_list_answers_witness:
  "tools_cache (snd (dispatch ex_up_ok ex_server (asc ''list'') None new_gateway)) (name ex_server) =
     Some (map long_form ex_tools) \<and>
   dispatch ex_up_ok ex_server (asc ''list'') None
     (snd (dispatch ex_up_ok ex_server (asc ''list'') None new_gateway)) =
     (Inr (format_tools ex_server (map long_form ex_tools)),
      snd (dispatch ex_up_ok ex_server (asc ''list'') None new_gateway)) \<and>
   discovery_calls
     (snd (dispatch ex_up_ok ex_server (asc ''list'') None
       (snd (dispatch ex_up_ok ex_server (asc ''list'') None new_gateway)))) = 1 \<and>
   tools_cache
     (snd (dispatch ex_up_ok ex_server (asc ''read'') None
       (snd (dispatch ex_up_ok ex_server (asc ''list'') None new_gateway)))) (name ex_server) =
     Some (map long_form ex_tools)"
proof -
  have miss: "tools_cache new_gateway (name ex_server) = None"
    by (simp add: new_gateway_def)
  have ok: "enumerate_operations ex_up_ok (client_sessions new_gateway) (client_config ex_server) =
      Inr ex_tools"
    by (simp add: ex_up_ok_def)
  have zero: "discovery_calls new_gateway = 0"
    by (simp add: discovery_calls_def new_gateway_def)
  from miss ok
    cached_list_answers [of new_gateway ex_server "map long_form ex_tools" ex_up_ok None None
      "name ex_server" "asc ''list''" ex_tools]
  have first:
    "tools_cache (snd (dispatch ex_up_ok ex_server (asc ''list'') None new_gateway)) (name ex_server) =
       Some (map long_form ex_tools) \<and>
     dispatch ex_up_ok ex_server (asc ''list'') None
       (snd (dispatch ex_up_ok ex_server (asc ''list'') None new_gateway)) =
       (Inr (format_tools ex_server (map long_form ex_tools)),
        snd (dispatch ex_up_ok ex_server (asc ''list'') None new_gateway)) \<and>
     discovery_calls
       (snd (dispatch ex_up_ok ex_server (asc ''list'') None
         (snd (dispatch ex_up_ok ex_server (asc ''list'') None new_gateway)))) =
       discovery_calls new_gateway + 1"
    by blast
  then have hit:
    "tools_cache (snd (dispatch ex_up_ok ex_server (asc ''list'') None new_gateway)) (name ex_server) =
       Some (map long_form ex_tools)"
    by blast
  from hit
    cached_list_answers [of "snd (dispatch ex_up_ok ex_server (asc ''list'') None new_gateway)"
      ex_server "map long_form ex_tools" ex_up_ok None None "name ex_server" "asc ''read''" ex_tools]
  have kept:
    "tools_cache
       (snd (dispatch ex_up_ok ex_server (asc ''read'') None
         (snd (dispatch ex_up_ok ex_server (asc ''list'') None new_gateway)))) (name ex_server) =
       Some (map long_form ex_tools)"
    by blast
  from first have "discovery_calls
       (snd (dispatch ex_up_ok ex_server (asc ''list'') None
         (snd (dispatch ex_up_ok ex_server (asc ''list'') None new_gateway)))) =
       discovery_calls new_gateway + 1"
    by blast
  with zero have one: "discovery_calls
       (snd (dispatch ex_up_ok ex_server (asc ''list'') None
         (snd (dispatch ex_up_ok ex_server (asc ''list'') None new_gateway)))) = 1"
    by simp
  from first one kept show ?thesis
    by blast
qed

text \<open>
  C6, as it is stated, bounds the discovery calls of any two consecutive list dispatches by
  one.  When the first discovery fails nothing is cached, so the second dispatch performs
  discovery again: with an upstream whose sessions all fail, two list dispatches on a fresh
  gateway open two discovery sessions.
\<close>

theorem two_lists_two_discoveries:
  "discovery_calls new_gateway = 0 \<and>
   discovery_calls
     (snd (dispatch ex_up_fail ex_server (asc ''list'') None
       (snd (dispatch ex_up_fail ex_server (asc ''list'') None new_gateway)))) = 2"
proof -
  let ?g1 = "new_gateway\<lparr>client_sessions := [(client_config ex_server, ListTools)]\<rparr>"
  have first: "list_tools ex_up_fail ex_server new_gateway = (Inr (list_failure ex_boom), ?g1)"
    using list_tools_miss_fail [of new_gateway ex_server ex_up_fail ex_boom]
    by (simp add: new_gateway_def ex_up_fail_def)
  have second: "list_tools ex_up_fail ex_server ?g1 =
      (Inr (list_failure ex_boom),
       ?g1\<lparr>client_sessions := client_sessions ?g1 @ [(client_config ex_server, ListTools)]\<rparr>)"
    by (rule list_tools_miss_fail) (simp_all add: new_gateway_def ex_up_fail_def)
  from first second show ?thesis
    by (simp add: dispatch_list discovery_calls_def new_gateway_def)
qed

section \<open>The shape of a list response\<close>

lemma py_split_append: "py_split sep (a @ sep # b) = py_split sep a @ py_split sep b"
  by (induction a) (auto simp: py_split_not_Nil split: list.split)

lemma py_split_prefixed:
  "sep \<notin> set p \<Longrightarrow>
   py_split sep (p @ t) = (p @ hd (py_split sep t)) # tl (py_split sep t)"
proof (induction p)
  case Nil
  show ?case by (simp add: py_split_not_Nil)
next
  case (Cons c p)
  then show ?case by simp
qed

lemma py_split_join:
  "ts \<noteq> [] \<Longrightarrow> py_split sep (py_join [sep] ts) = concat (map (py_split sep) ts)"
proof (induction ts)
  case Nil
  then show ?case by simp
next
  case (Cons t ts)
  show ?case
  proof (cases ts)
    case Nil
    then show ?thesis by simp
  next
    case (Cons u us)
    with Cons.IH have "py_split sep (py_join [sep] (u # us)) = concat (map (py_split sep) (u # us))"
      by simp
    with Cons show ?thesis
      by (simp add: py_split_append)
  qed
qed

lemma bullet_no_newline: "newline \<notin> set bullet"
  by (simp add: bullet_def newline_def asc_def)

lemma bulleted_entry_lines:
  "length (filter (prefix bullet) (py_split newline (bullet @ t))) =
     1 + length (filter (prefix bullet) (tl (py_split newline t)))"
  by (simp add: py_split_prefixed [OF bullet_no_newline])

lemma bulleted_lines_concat:
  "length (filter (prefix bullet) (concat (map (\<lambda>t. py_split newline (bullet @ t)) ts))) =
     length ts + sum_list (map (\<lambda>t. length (filter (prefix bullet) (tl (py_split newline t)))) ts)"
  by (induction ts) (simp_all add: bulleted_entry_lines)

lemma bulleted_lines_list_body:
  "bulleted_lines (list_body ts) =
     length ts + sum_list (map (\<lambda>t. length (filter (prefix bullet) (tl (py_split newline t)))) ts)"
proof (cases "ts = []")
  case True
  then show ?thesis
    by (simp add: bulleted_lines_def list_body_def bullet_def asc_def)
next
  case False
  then have "py_split newline (py_join [newline] (map (\<lambda>t. bullet @ t) ts)) =
      concat (map (py_split newline) (map (\<lambda>t. bullet @ t) ts))"
    by (intro py_split_join) simp
  then show ?thesis
    using bulleted_lines_concat [of ts]
    by (simp add: bulleted_lines_def list_body_def comp_def)
qed

lemma sum_list_zero:
  "list_all (\<lambda>t. f t = (0::nat)) ts \<Longrightarrow> sum_list (map f ts) = 0"
  by (induction ts) simp_all

text \<open>
  C7, as the code has it.  A successful list dispatch (a cache hit, or a cache miss whose
  discovery succeeds), in both files, returns the heading followed by the body.  The
  heading is a package sign, the subsystem's name in brackets, a fixed text, the number of
  cached entries in parentheses and an empty line.  The body has one bullet per entry.  The
  bulleted lines of the body are one per entry plus every further line of an entry that
  itself starts with the bullet; so their number is the count of the heading whenever no
  entry has such a line, in particular whenever no entry has a line break.
\<close>

theorem list_response_shape:
  "(tools_cache g (name server) = Some ts \<longrightarrow>
      fst (dispatch up server (asc ''list'') ps g) =
        Inr (list_heading (name server) (length ts) @ list_body ts) \<and>
      fst (dispatch_basic up server (asc ''list'') ps g) =
        Inr (list_heading (name server) (length ts) @ list_body ts)) \<and>
   (tools_cache g (name server) = None \<and>
    enumerate_operations up (client_sessions g) (client_config server) = Inr tls \<longrightarrow>
      fst (dispatch up server (asc ''list'') ps g) =
        Inr (list_heading (name server) (length tls) @ list_body (map long_form tls)) \<and>
      fst (dispatch_basic up server (asc ''list'') ps g) =
        Inr (list_heading (name server) (length tls) @ list_body (map long_form tls))) \<and>
   list_heading nm n =
     [0x1F4E6] @ asc '' ['' @ nm @ asc ''] '' @ [0x53EF, 0x7528, 0x5DE5, 0x5177] @ asc '' ('' @
     py_str_nat n @ asc '' '' @ [0x4E2A] @ asc ''):'' @ [newline, newline] \<and>
   list_body ts = py_join [newline] (map (\<lambda>t. bullet @ t) ts) \<and>
   bulleted_lines (list_body ts) =
     length ts +
     sum_list (map (\<lambda>t. length (filter (prefix bullet) (tl (py_split newline t)))) ts) \<and>
   (list_all (\<lambda>t. filter (prefix bullet) (tl (py_split newline t)) = []) ts \<longrightarrow>
      bulleted_lines (list_body ts) = length ts) \<and>
   (list_all (\<lambda>t. newline \<notin> set t) ts \<longrightarrow> bulleted_lines (list_body ts) = length ts)"
proof -
  have a: "fst (dispatch up server (asc ''list'') ps g) =
        Inr (list_heading (name server) (length ts) @ list_body ts) \<and>
      fst (dispatch_basic up server (asc ''list'') ps g) =
        Inr (list_heading (name server) (length ts) @ list_body ts)"
    if "tools_cache g (name server) = Some ts"
    using that by (simp add: dispatch_basic_eq dispatch_list list_tools_hit format_tools_def)
  have b: "fst (dispatch up server (asc ''list'') ps g) =
        Inr (list_heading (name server) (length tls) @ list_body (map long_form tls)) \<and>
      fst (dispatch_basic up server (asc ''list'') ps g) =
        Inr (list_heading (name server) (length tls) @ list_body (map long_form tls))"
    if "tools_cache g (name server) = None"
      and "enumerate_operations up (client_sessions g) (client_config server) = Inr tls"
    using that by (simp add: dispatch_basic_eq dispatch_list list_tools_miss_ok format_tools_def)
  have c: "bulleted_lines (list_body ts) = length ts"
    if "list_all (\<lambda>t. filter (prefix bullet) (tl (py_split newline t)) = []) ts"
  proof -
    from that
    have "list_all (\<lambda>t. length (filter (prefix bullet) (tl (py_split newline t))) = 0) ts"
      by (simp add: list_all_iff)
    then have "sum_list (map (\<lambda>t. length (filter (prefix bullet) (tl (py_split newline t)))) ts) = 0"
      by (rule sum_list_zero)
    then show ?thesis
      by (simp add: bulleted_lines_list_body)
  qed
  have d: "bulleted_lines (list_body ts) = length ts"
    if nl: "list_all (\<lambda>t. newline \<notin> set t) ts"
  proof -
    have one: "tl (py_split newline t) = []" if "newline \<notin> set t" for t
      using py_split_prefixed [OF that, of "[]"] by simp
    from nl have "list_all (\<lambda>t. filter (prefix bullet) (tl (py_split newline t)) = []) ts"
      by (simp add: list_all_iff one)
    then show ?thesis by (rule c)
  qed
  have e: "list_heading nm n =
     [0x1F4E6] @ asc '' ['' @ nm @ asc ''] '' @ [0x53EF, 0x7528, 0x5DE5, 0x5177] @ asc '' ('' @
     py_str_nat n @ asc '' '' @ [0x4E2A] @ asc ''):'' @ [newline, newline]"
    by (simp add: list_heading_def)
  have f: "list_body ts = py_join [newline] (map (\<lambda>t. bullet @ t) ts)"
    by (simp add: list_body_def)
  note h = bulleted_lines_list_body [of ts]
  from a b c d e f h show ?thesis
    by blast
qed

theorem list_response_shape_witness:
  "fst (dispatch ex_up_ok ex_server (asc ''list'') None ex_cached) =
     Inr (list_heading (name ex_server) (length ex_entries) @ list_body ex_entries) \<and>
   fst (dispatch ex_up_ok ex_server (asc ''list'') None new_gateway) =
     Inr (list_heading (name ex_server) (length ex_tools) @ list_body (map long_form ex_tools)) \<and>
   length ex_entries = 2 \<and>
   bulleted_lines (list_body ex_entries) = length ex_entries"
proof -
  have hit: "tools_cache ex_cached (name ex_server) = Some ex_entries"
    by (simp add: ex_cached_def ex_server_def new_gateway_def)
  have miss: "tools_cache new_gateway (name ex_server) = None"
    by (simp add: new_gateway_def)
  have ok: "enumerate_operations ex_up_ok (client_sessions new_gateway) (client_config ex_server) =
      Inr ex_tools"
    by (simp add: ex_up_ok_def)
  have plain: "list_all (\<lambda>t. newline \<notin> set t) ex_entries"
    by (simp add: ex_entries_def newline_def asc_def)
  have two: "length ex_entries = 2"
    by (simp add: ex_entries_def)
  from hit plain
    list_response_shape [of ex_cached ex_server ex_entries ex_up_ok None ex_tools "[]" 0]
  have a: "fst (dispatch ex_up_ok ex_server (asc ''list'') None ex_cached) =
      Inr (list_heading (name ex_server) (length ex_entries) @ list_body ex_entries) \<and>
    bulleted_lines (list_body ex_entries) = length ex_entries"
    by blast
  from miss ok
    list_response_shape [of new_gateway ex_server ex_entries ex_up_ok None ex_tools "[]" 0]
  have b: "fst (dispatch ex_up_ok ex_server (asc ''list'') None new_gateway) =
      Inr (list_heading (name ex_server) (length ex_tools) @ list_body (map long_form ex_tools))"
    by blast
  from a b two show ?thesis
    by blast
qed

text \<open>
  C7, as it is stated, has the response begin with the subsystem's name and the count equal
  the number of bulleted lines.  The response begins with the package sign, not with the
  name; and the long form keeps every line of a description, so a description whose second
  line starts with the bullet adds a bulleted line.  For the subsystem \<open>A\<close> with the two
  example tools the response does not begin with \<open>A\<close>, its count is 2 and its body has 3
  bulleted lines.
\<close>

theorem list_response_not_name_first:
  "fst (dispatch ex_up_ok ex_server (asc ''list'') None new_gateway) =
     Inr (list_heading (name ex_server) 2 @ list_body (map long_form ex_tools)) \<and>
   name ex_server = asc ''A'' \<and>
   \<not> prefix (name ex_server)
       (list_heading (name ex_server) 2 @ list_body (map long_form ex_tools)) \<and>
   length ex_tools = 2 \<and>
   bulleted_lines (list_body (map long_form ex_tools)) = 3"
proof -
  have miss: "tools_cache new_gateway (name ex_server) = None"
    by (simp add: new_gateway_def)
  have ok: "enumerate_operations ex_up_ok (client_sessions new_gateway) (client_config ex_server) =
      Inr ex_tools"
    by (simp add: ex_up_ok_def)
  have two: "length ex_tools = 2"
    by (simp add: ex_tools_def)
  have r: "fst (dispatch ex_up_ok ex_server (asc ''list'') None new_gateway) =
      Inr (list_heading (name ex_server) 2 @ list_body (map long_form ex_tools))"
    using list_tools_miss_ok [OF miss ok] two
    by (simp add: dispatch_list format_tools_def)
  have n: "name ex_server = asc ''A''"
    by (simp add: ex_server_def)
  have p: "\<not> prefix (name ex_server)
       (list_heading (name ex_server) 2 @ list_body (map long_form ex_tools))"
    by (simp add: n list_heading_def asc_def)
  have b: "bulleted_lines (list_body (map long_form ex_tools)) = 3"
    by (simp add: bulleted_lines_list_body ex_tools_def long_form_def description_or_default_def
        no_description_def bullet_def newline_def asc_def)
  from r n p two b show ?thesis
    by blast
qed

section \<open>Registering a name twice\<close>

lemma add_server_servers:
  "servers (add_server up server g) =
     (servers g)(name server \<mapsto>
       (case enumerate_operations up (client_sessions g) (client_config server) of
          Inl e \<Rightarrow> server
        | Inr tls \<Rightarrow> server\<lparr>tools := map short_form tls\<rparr>))"
  by (cases "enumerate_operations up (client_sessions g) (client_config server)")
    (simp_all add: add_server_def fetch_tools_dynamic_ok fetch_tools_dynamic_fail
      register_tool_def app_register_def Let_def)

lemma add_server_app:
  "app (add_server up server g) =
     AList.update (entry_point_name (name server))
       (case enumerate_operations up (client_sessions g) (client_config server) of
          Inl e \<Rightarrow> \<lparr>ep_description = build_description server, ep_server = server\<rparr>
        | Inr tls \<Rightarrow>
            \<lparr>ep_description = build_description (server\<lparr>tools := map short_form tls\<rparr>),
             ep_server = server\<lparr>tools := map short_form tls\<rparr>\<rparr>)
       (app g)"
  by (cases "enumerate_operations up (client_sessions g) (client_config server)")
    (simp_all add: add_server_def fetch_tools_dynamic_ok fetch_tools_dynamic_fail
      register_tool_def app_register_def Let_def)

lemma add_server_basic_fields:
  "servers (add_server_basic server g) = (servers g)(name server \<mapsto> server) \<and>
   app (add_server_basic server g) =
     AList.update (entry_point_name (name server))
       \<lparr>ep_description = build_description_basic (name server), ep_server = server\<rparr> (app g)"
  by (simp add: add_server_basic_def register_tool_basic_def app_register_def)

lemma no_key_no_entry:
  "k \<notin> fst ` set al \<Longrightarrow> filter (\<lambda>p. fst p = k) al = []"
  by (induction al) auto

lemma one_entry_after_update:
  "distinct (map fst al) \<Longrightarrow> length (filter (\<lambda>p. fst p = k) (AList.update k v al)) = 1"
proof (induction al)
  case Nil
  show ?case by simp
next
  case (Cons p ps)
  show ?case
  proof (cases "fst p = k")
    case True
    with Cons.prems have "k \<notin> fst ` set ps"
      by auto
    then have "filter (\<lambda>p. fst p = k) ps = []"
      by (rule no_key_no_entry)
    with True show ?thesis
      by simp
  next
    case False
    with Cons show ?thesis
      by simp
  qed
qed

text \<open>
  C8.  Let two configs with the same name be registered one after the other.  In both
  files the subsystem map then maps that name to the second config (in
  \<^verbatim>\<open>gateway_mcp_server.py\<close> with the short forms its own discovery found, if it succeeded),
  and holds no other new key.  The app's table maps the entry point's name, \<open>use_\<close> and the
  subsystem's name, to the callable built from the second config, and when the table had
  one entry per name before, it has exactly one entry under that name afterwards.
  \<^verbatim>\<open>add_server\<close> has no error result: discovery failures are caught inside it, and nothing
  else in it can raise.
\<close>

theorem same_name_last_wins:
  "name s2 = name s1 \<longrightarrow>
     servers (add_server up s2 (add_server up s1 g)) (name s1) =
       Some (case enumerate_operations up (client_sessions (add_server up s1 g)) (client_config s2) of
               Inl e \<Rightarrow> s2
             | Inr tls \<Rightarrow> s2\<lparr>tools := map short_form tls\<rparr>) \<and>
     dom (servers (add_server up s2 (add_server up s1 g))) = insert (name s1) (dom (servers g)) \<and>
     map_of (app (add_server up s2 (add_server up s1 g))) (entry_point_name (name s1)) =
       Some (case enumerate_operations up (client_sessions (add_server up s1 g)) (client_config s2) of
               Inl e \<Rightarrow> \<lparr>ep_description = build_description s2, ep_server = s2\<rparr>
             | Inr tls \<Rightarrow>
                 \<lparr>ep_description = build_description (s2\<lparr>tools := map short_form tls\<rparr>),
                  ep_server = s2\<lparr>tools := map short_form tls\<rparr>\<rparr>) \<and>
     (distinct (map fst (app g)) \<longrightarrow>
        length (filter (\<lambda>p. fst p = entry_point_name (name s1))
                 (app (add_server up s2 (add_server up s1 g)))) = 1) \<and>
     servers (add_server_basic s2 (add_server_basic s1 g)) (name s1) = Some s2 \<and>
     dom (servers (add_server_basic s2 (add_server_basic s1 g))) =
       insert (name s1) (dom (servers g)) \<and>
     map_of (app (add_server_basic s2 (add_server_basic s1 g))) (entry_point_name (name s1)) =
       Some \<lparr>ep_description = build_description_basic (name s2), ep_server = s2\<rparr> \<and>
     (distinct (map fst (app g)) \<longrightarrow>
        length (filter (\<lambda>p. fst p = entry_point_name (name s1))
                 (app (add_server_basic s2 (add_server_basic s1 g)))) = 1)"
proof
  assume same: "name s2 = name s1"
  let ?g1 = "add_server up s1 g"
  let ?b1 = "add_server_basic s1 g"
  have a: "servers (add_server up s2 ?g1) (name s1) =
       Some (case enumerate_operations up (client_sessions ?g1) (client_config s2) of
               Inl e \<Rightarrow> s2
             | Inr tls \<Rightarrow> s2\<lparr>tools := map short_form tls\<rparr>)"
    by (simp add: add_server_servers [of up s2] same)
  have b: "dom (servers (add_server up s2 ?g1)) = insert (name s1) (dom (servers g))"
    by (simp add: add_server_servers same)
  have c: "map_of (app (add_server up s2 ?g1)) (entry_point_name (name s1)) =
       Some (case enumerate_operations up (client_sessions ?g1) (client_config s2) of
               Inl e \<Rightarrow> \<lparr>ep_description = build_description s2, ep_server = s2\<rparr>
             | Inr tls \<Rightarrow>
                 \<lparr>ep_description = build_description (s2\<lparr>tools := map short_form tls\<rparr>),
                  ep_server = s2\<lparr>tools := map short_form tls\<rparr>\<rparr>)"
    by (simp add: add_server_app [of up s2] same update_conv')
  have d: "length (filter (\<lambda>p. fst p = entry_point_name (name s1))
                 (app (add_server up s2 ?g1))) = 1"
    if dist: "distinct (map fst (app g))"
  proof -
    from dist have "distinct (map fst (app ?g1))"
      by (simp add: add_server_app [of up s1] distinct_update)
    then show ?thesis
      by (simp only: add_server_app [of up s2] same one_entry_after_update)
  qed
  have e: "servers (add_server_basic s2 ?b1) (name s1) = Some s2"
    by (simp add: add_server_basic_fields same)
  have f: "dom (servers (add_server_basic s2 ?b1)) = insert (name s1) (dom (servers g))"
    by (simp add: add_server_basic_fields same)
  have h: "map_of (app (add_server_basic s2 ?b1)) (entry_point_name (name s1)) =
       Some \<lparr>ep_description = build_description_basic (name s2), ep_server = s2\<rparr>"
    by (simp add: add_server_basic_fields same update_conv')
  have i: "length (filter (\<lambda>p. fst p = entry_point_name (name s1))
                 (app (add_server_basic s2 ?b1))) = 1"
    if dist: "distinct (map fst (app g))"
  proof -
    from dist have "distinct (map fst (app ?b1))"
      by (simp add: add_server_basic_fields distinct_update)
    then show ?thesis
      by (simp only: add_server_basic_fields same one_entry_after_update)
  qed
  from a b c d e f h i
  show "servers (add_server up s2 (add_server up s1 g)) (name s1) =
       Some (case enumerate_operations up (client_sessions (add_server up s1 g)) (client_config s2) of
               Inl e \<Rightarrow> s2
             | Inr tls \<Rightarrow> s2\<lparr>tools := map short_form tls\<rparr>) \<and>
     dom (servers (add_server up s2 (add_server up s1 g))) = insert (name s1) (dom (servers g)) \<and>
     map_of (app (add_server up s2 (add_server up s1 g))) (entry_point_name (name s1)) =
       Some (case enumerate_operations up (client_sessions (add_server up s1 g)) (client_config s2) of
               Inl e \<Rightarrow> \<lparr>ep_description = build_description s2, ep_server = s2\<rparr>
             | Inr tls \<Rightarrow>
                 \<lparr>ep_description = build_description (s2\<lparr>tools := map short_form tls\<rparr>),
                  ep_server = s2\<lparr>tools := map short_form tls\<rparr>\<rparr>) \<and>
     (distinct (map fst (app g)) \<longrightarrow>
        length (filter (\<lambda>p. fst p = entry_point_name (name s1))
                 (app (add_server up s2 (add_server up s1 g)))) = 1) \<and>
     servers (add_server_basic s2 (add_server_basic s1 g)) (name s1) = Some s2 \<and>
     dom (servers (add_server_basic s2 (add_server_basic s1 g))) =
       insert (name s1) (dom (servers g)) \<and>
     map_of (app (add_server_basic s2 (add_server_basic s1 g))) (entry_point_name (name s1)) =
       Some \<lparr>ep_description = build_description_basic (name s2), ep_server = s2\<rparr> \<and>
     (distinct (map fst (app g)) \<longrightarrow>
        length (filter (\<lambda>p. fst p = entry_point_name (name s1))
                 (app (add_server_basic s2 (add_server_basic s1 g)))) = 1)"
    by blast
qed

theorem same_name_last_wins_witness:
  "name ex_server2 = name ex_server \<and> ex_server2 \<noteq> ex_server \<and>
   distinct (map fst (app new_gateway)) \<and>
   servers (add_server ex_up_ok ex_server2 (add_server ex_up_ok ex_server new_gateway))
     (name ex_server) = Some (ex_server2\<lparr>tools := map short_form ex_tools\<rparr>) \<and>
   length (filter (\<lambda>p. fst p = entry_point_name (name ex_server))
     (app (add_server ex_up_ok ex_server2 (add_server ex_up_ok ex_server new_gateway)))) = 1 \<and>
   servers (add_server_basic ex_server2 (add_server_basic ex_server new_gateway))
     (name ex_server) = Some ex_server2 \<and>
   length (filter (\<lambda>p. fst p = entry_point_name (name ex_server))
     (app (add_server_basic ex_server2 (add_server_basic ex_server new_gateway)))) = 1"
proof -
  have same: "name ex_server2 = name ex_server"
    by (simp add: ex_server_def ex_server2_def)
  have differ: "ex_server2 \<noteq> ex_server"
    by (simp add: ex_server_def ex_server2_def asc_def)
  have dist: "distinct (map fst (app new_gateway))"
    by (simp add: new_gateway_def)
  have ok: "enumerate_operations ex_up_ok
      (client_sessions (add_server ex_up_ok ex_server new_gateway)) (client_config ex_server2) =
      Inr ex_tools"
    by (simp add: ex_up_ok_def)
  note T = same_name_last_wins [of ex_server2 ex_server ex_up_ok new_gateway]
  from same T have a:
    "servers (add_server ex_up_ok ex_server2 (add_server ex_up_ok ex_server new_gateway))
       (name ex_server) =
       Some (case enumerate_operations ex_up_ok
                (client_sessions (add_server ex_up_ok ex_server new_gateway))
                (client_config ex_server2) of
               Inl e \<Rightarrow> ex_server2
             | Inr tls \<Rightarrow> ex_server2\<lparr>tools := map short_form tls\<rparr>)"
    by blast
  from same dist T have b:
    "length (filter (\<lambda>p. fst p = entry_point_name (name ex_server))
       (app (add_server ex_up_ok ex_server2 (add_server ex_up_ok ex_server new_gateway)))) = 1"
    by blast
  from same T have c:
    "servers (add_server_basic ex_server2 (add_server_basic ex_server new_gateway))
       (name ex_server) = Some ex_server2"
    by blast
  from same dist T have d:
    "length (filter (\<lambda>p. fst p = entry_point_name (name ex_server))
       (app (add_server_basic ex_server2 (add_server_basic ex_server new_gateway)))) = 1"
    by blast
  from a have a': "servers (add_server ex_up_ok ex_server2 (add_server ex_up_ok ex_server new_gateway))
     (name ex_server) = Some (ex_server2\<lparr>tools := map short_form ex_tools\<rparr>)"
    by (simp add: ok)
  from same differ dist a' b c d show ?thesis
    by blast
qed

section \<open>Failed discovery and the cache\<close>



section \<open>The list action and its params\<close>

text \<open>
  C10.  The list action ignores its params: from the same state, two list dispatches with
  any two params (given or omitted) return the same string and the same state, in both
  files and at both levels (the registered closure and \<^verbatim>\<open>_handle_dispatch\<close>).
\<close>

theorem list_ignores_params:
  "dispatch up server (asc ''list'') p1 g = dispatch up server (asc ''list'') p2 g \<and>
   dispatch_basic up server (asc ''list'') p1 g = dispatch_basic up server (asc ''list'') p2 g \<and>
   handle_dispatch up server (asc ''list'') q1 g = handle_dispatch up server (asc ''list'') q2 g \<and>
   handle_dispatch_basic up server (asc ''list'') q1 g =
     handle_dispatch_basic up server (asc ''list'') q2 g"
  by (simp add: dispatch_def dispatch_basic_def handle_dispatch_def handle_dispatch_basic_def)

end
